theory Spec2Isabelle
  imports
    Complex_Main
    "HOL-Library.Word"
    "HOL-Library.Sublist"
    "HOL-Library.Char_ord"
    "HOL-Library.List_Lexorder"
begin

section \<open>motion\_capture\_tracking\_node: configuration building and the frame loop\<close>

text \<open>
  A shallow embedding of \<^verbatim>\<open>src/motion_capture_tracking_node.cpp\<close>.

  \<^item> A thrown C++ exception, which \<^verbatim>\<open>main\<close> never catches and which therefore ends the
    process, is an \<open>Inl\<close> result. An out-of-range \<^verbatim>\<open>operator[]\<close> read of a
    \<^verbatim>\<open>std::vector\<close> is not an exception: it is undefined behaviour, and it has an
    error value of its own, so that it is never mistaken for an abort.
  \<^item> A \<^verbatim>\<open>float\<close> or \<^verbatim>\<open>double\<close> is the real number it denotes. Conversions that are
    exact (\<^verbatim>\<open>int\<close> to \<^verbatim>\<open>double\<close>, \<^verbatim>\<open>float\<close> to \<^verbatim>\<open>double\<close>) are the identity on
    that number; the operations that round (the \<^verbatim>\<open>double\<close> addition, the narrowing of a
    \<^verbatim>\<open>double\<close> to a \<^verbatim>\<open>float\<close>) and the bit pattern of a \<^verbatim>\<open>float\<close> are parameters,
    collected in the record \<open>float_ops\<close>.
  \<^item> A \<^verbatim>\<open>std::map\<close> is the list of its entries in iteration order (ascending keys); a
    \<^verbatim>\<open>std::set<std::string>\<close> is the ascending list of its elements.
\<close>

subsection \<open>Errors\<close>

datatype error =
    Out_of_range           \<comment> \<open>\<^verbatim>\<open>std::out_of_range\<close>: \<^verbatim>\<open>map::at\<close>, \<^verbatim>\<open>vector::at\<close>, \<^verbatim>\<open>string::substr\<close>\<close>
  | Parameter_type         \<comment> \<open>\<^verbatim>\<open>rclcpp::ParameterTypeException\<close>: \<^verbatim>\<open>get<T>\<close> on a value of another type\<close>
  | Undefined_behaviour    \<comment> \<open>\<^verbatim>\<open>vector::operator[]\<close> past the end\<close>

definition is_exception :: "error \<Rightarrow> bool" where
  "is_exception e = (e \<noteq> Undefined_behaviour)"

definition bind :: "error + 'a \<Rightarrow> ('a \<Rightarrow> error + 'b) \<Rightarrow> error + 'b" where
  "bind r f = (case r of Inl e \<Rightarrow> Inl e | Inr x \<Rightarrow> f x)"

subsection \<open>\<^verbatim>\<open>std::string\<close> and \<^verbatim>\<open>std::set<std::string>\<close>\<close>

text \<open>
  \<^verbatim>\<open>s.find(t, pos)\<close>: the least position \<open>p \<ge> pos\<close> at which \<open>t\<close> occurs in \<open>s\<close>;
  \<open>None\<close> is \<^verbatim>\<open>std::string::npos\<close>.
\<close>

fun find_first :: "string \<Rightarrow> string \<Rightarrow> nat option" where
  "find_first t [] = (if t = [] then Some 0 else None)"
| "find_first t (c # s) =
     (if prefix t (c # s) then Some 0 else map_option Suc (find_first t s))"

definition str_find :: "string \<Rightarrow> string \<Rightarrow> nat \<Rightarrow> nat option" where
  "str_find s t pos =
     (if length s < pos then None
      else map_option (\<lambda>p. pos + p) (find_first t (drop pos s)))"

text \<open>
  \<^verbatim>\<open>s.substr(pos, count)\<close> throws \<^verbatim>\<open>std::out_of_range\<close> when \<open>pos > size()\<close> and
  otherwise returns \<open>min count (size() - pos)\<close> characters from \<open>pos\<close> on. The count
  \<open>None\<close> stands for \<^verbatim>\<open>npos - pos\<close>: a string is shorter than \<^verbatim>\<open>npos\<close>, so that count
  is never smaller than what is left of the string.
\<close>

definition substr :: "string \<Rightarrow> nat \<Rightarrow> nat option \<Rightarrow> error + string" where
  "substr s pos count =
     (if length s < pos then Inl Out_of_range
      else Inr (case count of None \<Rightarrow> drop pos s | Some n \<Rightarrow> take n (drop pos s)))"

text \<open>\<^verbatim>\<open>std::set::insert\<close> on the ascending list of the elements.\<close>

definition set_insert :: "string \<Rightarrow> string list \<Rightarrow> string list" where
  "set_insert x xs = (if x \<in> set xs then xs else insort x xs)"

subsection \<open>\<^verbatim>\<open>rclcpp::ParameterValue\<close> and the override map\<close>

datatype parameter_value =
    Not_set
  | Bool bool
  | Integer "64 word"
  | Double real
  | String string
  | Byte_array "8 word list"
  | Bool_array "bool list"
  | Integer_array "64 word list"
  | Double_array "real list"
  | String_array "string list"

type_synonym overrides = "(string \<times> parameter_value) list"

text \<open>\<^verbatim>\<open>parameter_overrides.at(key)\<close>\<close>

definition at_key :: "(string \<times> 'v) list \<Rightarrow> string \<Rightarrow> error + 'v" where
  "at_key m k = (case map_of m k of None \<Rightarrow> Inl Out_of_range | Some v \<Rightarrow> Inr v)"

definition get_double :: "parameter_value \<Rightarrow> error + real" where
  "get_double v = (case v of Double d \<Rightarrow> Inr d | _ \<Rightarrow> Inl Parameter_type)"

definition get_string :: "parameter_value \<Rightarrow> error + string" where
  "get_string v = (case v of String s \<Rightarrow> Inr s | _ \<Rightarrow> Inl Parameter_type)"

definition get_double_array :: "parameter_value \<Rightarrow> error + real list" where
  "get_double_array v = (case v of Double_array ds \<Rightarrow> Inr ds | _ \<Rightarrow> Inl Parameter_type)"

subsection \<open>\<^verbatim>\<open>extract_names\<close>\<close>

fun extract_names_loop :: "overrides \<Rightarrow> string \<Rightarrow> string list \<Rightarrow> error + string list" where
  "extract_names_loop [] pattern result = Inr result"
| "extract_names_loop (i # rest) pattern result =
     (if str_find (fst i) pattern 0 = Some 0 then
        (let start = length pattern + 1;
             end = str_find (fst i) ''.'' start
         in bind (substr (fst i) start (map_option (\<lambda>e. e - start) end))
              (\<lambda>token. extract_names_loop rest pattern (set_insert token result)))
      else extract_names_loop rest pattern result)"

definition extract_names :: "overrides \<Rightarrow> string \<Rightarrow> error + string list" where
  "extract_names parameter_overrides pattern =
     extract_names_loop parameter_overrides pattern []"

subsection \<open>\<^verbatim>\<open>get_vec\<close>\<close>

text \<open>
  The loop variable of \<^verbatim>\<open>for (int v : int_vec)\<close> is a 32-bit \<^verbatim>\<open>int\<close>: each
  \<^verbatim>\<open>int64_t\<close> element is narrowed to its low 32 bits, read as two's complement, before it
  becomes a \<^verbatim>\<open>double\<close> (which holds every 32-bit integer exactly).
\<close>

definition int_of_int64 :: "64 word \<Rightarrow> 32 word" where
  "int_of_int64 v = ucast v"

definition get_vec :: "parameter_value \<Rightarrow> error + real list" where
  "get_vec param_value =
     (case param_value of
        Integer_array int_vec \<Rightarrow> Inr (map (\<lambda>v. real_of_int (sint (int_of_int64 v))) int_vec)
      | _ \<Rightarrow> get_double_array param_value)"

subsection \<open>Floating point operations that round\<close>

record float_ops =
  dadd :: "real \<Rightarrow> real \<Rightarrow> real"    \<comment> \<open>\<^verbatim>\<open>double + double\<close>\<close>
  d2f :: "real \<Rightarrow> real"             \<comment> \<open>a \<^verbatim>\<open>double\<close> passed where a \<^verbatim>\<open>float\<close> is taken\<close>
  f32_bits :: "real \<Rightarrow> 32 word"      \<comment> \<open>the object representation of a \<^verbatim>\<open>float\<close>\<close>
  seconds :: "int \<Rightarrow> real"          \<comment> \<open>\<^verbatim>\<open>std::chrono::duration<double>\<close> of a tick count\<close>

subsection \<open>The tracker's configuration types\<close>

record dynamics_configuration =
  maxXVelocity :: real
  maxYVelocity :: real
  maxZVelocity :: real
  maxRollRate :: real
  maxPitchRate :: real
  maxYawRate :: real
  maxRoll :: real
  maxPitch :: real
  maxFitnessScore :: real

record point_xyz =
  px :: real
  py :: real
  pz :: real

type_synonym marker_configuration = "point_xyz list"

record object =
  markerConfigurationIdx :: nat
  dynamicsConfigurationIdx :: nat
  initialTransformation :: point_xyz   \<comment> \<open>\<^verbatim>\<open>Eigen::Translation3f\<close>\<close>
  object_name :: string

record configuration =
  dynamicsConfigurations :: "dynamics_configuration list"
  markerConfigurations :: "marker_configuration list"
  objects :: "object list"

text \<open>A value-initialised \<^verbatim>\<open>DynamicsConfiguration\<close>, as \<^verbatim>\<open>std::vector(n)\<close> creates it.\<close>

definition zero_dynamics :: dynamics_configuration where
  "zero_dynamics =
     \<lparr>maxXVelocity = 0, maxYVelocity = 0, maxZVelocity = 0,
      maxRollRate = 0, maxPitchRate = 0, maxYawRate = 0,
      maxRoll = 0, maxPitch = 0, maxFitnessScore = 0\<rparr>"

text \<open>\<^verbatim>\<open>v.at(k)\<close> throws, \<^verbatim>\<open>v[k]\<close> past the end is undefined.\<close>

definition vec_at :: "'a list \<Rightarrow> nat \<Rightarrow> error + 'a" where
  "vec_at v k = (if k < length v then Inr (v ! k) else Inl Out_of_range)"

definition vec_index :: "'a list \<Rightarrow> nat \<Rightarrow> error + 'a" where
  "vec_index v k = (if k < length v then Inr (v ! k) else Inl Undefined_behaviour)"

text \<open>\<^verbatim>\<open>name_to_index.at(name)\<close> on a \<^verbatim>\<open>std::map<std::string, size_t>\<close>\<close>

definition index_at :: "(string \<rightharpoonup> nat) \<Rightarrow> string \<Rightarrow> error + nat" where
  "index_at m k = (case m k of None \<Rightarrow> Inl Out_of_range | Some i \<Rightarrow> Inr i)"

subsection \<open>\<^verbatim>\<open>main\<close>: the dynamics configurations\<close>

definition read_dynamics :: "overrides \<Rightarrow> string \<Rightarrow> error + dynamics_configuration" where
  "read_dynamics parameter_overrides name =
     bind (at_key parameter_overrides (''dynamics_configurations.'' @ name @ ''.max_velocity'')) (\<lambda>p1.
     bind (get_vec p1) (\<lambda>max_vel.
     bind (vec_at max_vel 0) (\<lambda>vx.
     bind (vec_at max_vel 1) (\<lambda>vy.
     bind (vec_at max_vel 2) (\<lambda>vz.
     bind (at_key parameter_overrides (''dynamics_configurations.'' @ name @ ''.max_angular_velocity'')) (\<lambda>p2.
     bind (get_vec p2) (\<lambda>max_angular_velocity.
     bind (vec_at max_angular_velocity 0) (\<lambda>wx.
     bind (vec_at max_angular_velocity 1) (\<lambda>wy.
     bind (vec_at max_angular_velocity 2) (\<lambda>wz.
     bind (at_key parameter_overrides (''dynamics_configurations.'' @ name @ ''.max_roll'')) (\<lambda>p3.
     bind (get_double p3) (\<lambda>roll.
     bind (at_key parameter_overrides (''dynamics_configurations.'' @ name @ ''.max_pitch'')) (\<lambda>p4.
     bind (get_double p4) (\<lambda>pitch.
     bind (at_key parameter_overrides (''dynamics_configurations.'' @ name @ ''.max_fitness_score'')) (\<lambda>p5.
     bind (get_double p5) (\<lambda>score.
     Inr \<lparr>maxXVelocity = vx, maxYVelocity = vy, maxZVelocity = vz,
          maxRollRate = wx, maxPitchRate = wy, maxYawRate = wz,
          maxRoll = roll, maxPitch = pitch, maxFitnessScore = score\<rparr>))))))))))))))))"

text \<open>
  The loop state is \<^verbatim>\<open>dynamicsConfigurations\<close>, \<^verbatim>\<open>dynamics_name_to_index\<close> and the
  counter \<^verbatim>\<open>i\<close>, which the loop increments once per name.
\<close>

fun dynamics_loop ::
  "overrides \<Rightarrow> string list \<Rightarrow> dynamics_configuration list \<times> (string \<rightharpoonup> nat) \<times> nat
     \<Rightarrow> error + dynamics_configuration list \<times> (string \<rightharpoonup> nat) \<times> nat" where
  "dynamics_loop parameter_overrides [] st = Inr st"
| "dynamics_loop parameter_overrides (name # names) (cfgs, dynamics_name_to_index, i) =
     bind (read_dynamics parameter_overrides name) (\<lambda>c.
       dynamics_loop parameter_overrides names
         (cfgs[i := c], dynamics_name_to_index(name \<mapsto> i), i + 1))"

subsection \<open>\<^verbatim>\<open>main\<close>: the marker configurations\<close>

text \<open>The inner loop over all overrides: a point for every key that begins with \<open>pre\<close>.\<close>

fun points_loop ::
  "float_ops \<Rightarrow> overrides \<Rightarrow> string \<Rightarrow> real list \<Rightarrow> marker_configuration
     \<Rightarrow> error + marker_configuration" where
  "points_loop fp [] pre offset cloud = Inr cloud"
| "points_loop fp (param # rest) pre offset cloud =
     (if str_find (fst param) pre 0 = Some 0 then
        bind (get_vec (snd param)) (\<lambda>points.
        bind (vec_index points 0) (\<lambda>p0.
        bind (vec_index offset 0) (\<lambda>o0.
        bind (vec_index points 1) (\<lambda>p1.
        bind (vec_index offset 1) (\<lambda>o1.
        bind (vec_index points 2) (\<lambda>p2.
        bind (vec_index offset 2) (\<lambda>o2.
        points_loop fp rest pre offset
          (cloud @ [\<lparr>px = d2f fp (dadd fp p0 o0),
                     py = d2f fp (dadd fp p1 o1),
                     pz = d2f fp (dadd fp p2 o2)\<rparr>]))))))))
      else points_loop fp rest pre offset cloud)"

text \<open>
  The counter \<^verbatim>\<open>i\<close> is the one the dynamics loop left behind; this loop reads it for
  \<^verbatim>\<open>marker_name_to_index[name] = i\<close> and never changes it.
\<close>

fun marker_loop ::
  "float_ops \<Rightarrow> overrides \<Rightarrow> string list \<Rightarrow> nat
     \<Rightarrow> marker_configuration list \<times> (string \<rightharpoonup> nat)
     \<Rightarrow> error + marker_configuration list \<times> (string \<rightharpoonup> nat)" where
  "marker_loop fp parameter_overrides [] i st = Inr st"
| "marker_loop fp parameter_overrides (name # names) i (mcs, marker_name_to_index) =
     bind (at_key parameter_overrides (''marker_configurations.'' @ name @ ''.offset'')) (\<lambda>p.
     bind (get_vec p) (\<lambda>offset.
     bind (points_loop fp parameter_overrides
             (''marker_configurations.'' @ name @ ''.points'') offset []) (\<lambda>cloud.
       marker_loop fp parameter_overrides names i
         (mcs @ [cloud], marker_name_to_index(name \<mapsto> i)))))"

subsection \<open>\<^verbatim>\<open>main\<close>: the rigid bodies\<close>

fun objects_loop ::
  "float_ops \<Rightarrow> overrides \<Rightarrow> string list \<Rightarrow> (string \<rightharpoonup> nat) \<Rightarrow> (string \<rightharpoonup> nat)
     \<Rightarrow> object list \<Rightarrow> error + object list" where
  "objects_loop fp parameter_overrides [] marker_name_to_index dynamics_name_to_index objs =
     Inr objs"
| "objects_loop fp parameter_overrides (name # names) marker_name_to_index
       dynamics_name_to_index objs =
     bind (at_key parameter_overrides (''rigid_bodies.'' @ name @ ''.initial_position'')) (\<lambda>p1.
     bind (get_vec p1) (\<lambda>pos.
     bind (vec_index pos 0) (\<lambda>x.
     bind (vec_index pos 1) (\<lambda>y.
     bind (vec_index pos 2) (\<lambda>z.
     bind (at_key parameter_overrides (''rigid_bodies.'' @ name @ ''.marker'')) (\<lambda>p2.
     bind (get_string p2) (\<lambda>marker.
     bind (at_key parameter_overrides (''rigid_bodies.'' @ name @ ''.dynamics'')) (\<lambda>p3.
     bind (get_string p3) (\<lambda>dynamics.
     bind (index_at marker_name_to_index marker) (\<lambda>mi.
     bind (index_at dynamics_name_to_index dynamics) (\<lambda>di.
       objects_loop fp parameter_overrides names marker_name_to_index dynamics_name_to_index
         (objs @ [\<lparr>markerConfigurationIdx = mi, dynamicsConfigurationIdx = di,
                    initialTransformation = \<lparr>px = d2f fp x, py = d2f fp y, pz = d2f fp z\<rparr>,
                    object_name = name\<rparr>]))))))))))))"

subsection \<open>\<^verbatim>\<open>main\<close>: everything before the frame loop\<close>

definition build_configuration :: "float_ops \<Rightarrow> overrides \<Rightarrow> error + configuration" where
  "build_configuration fp parameter_overrides =
     bind (extract_names parameter_overrides ''dynamics_configurations'') (\<lambda>dynamics_config_names.
     bind (dynamics_loop parameter_overrides dynamics_config_names
             (replicate (length dynamics_config_names) zero_dynamics, Map.empty, 0))
       (\<lambda>(dcs, dynamics_name_to_index, i).
     bind (extract_names parameter_overrides ''marker_configurations'') (\<lambda>marker_config_names.
     bind (marker_loop fp parameter_overrides marker_config_names i ([], Map.empty))
       (\<lambda>(mcs, marker_name_to_index).
     bind (extract_names parameter_overrides ''rigid_bodies'') (\<lambda>rigid_body_names.
     bind (objects_loop fp parameter_overrides rigid_body_names
             marker_name_to_index dynamics_name_to_index [])
       (\<lambda>objs.
     Inr \<lparr>dynamicsConfigurations = dcs, markerConfigurations = mcs, objects = objs\<rparr>))))))"

subsection \<open>Messages\<close>

record header =
  stamp :: int                \<comment> \<open>\<^verbatim>\<open>rclcpp::Time\<close>, in nanoseconds\<close>
  frame_id :: string

datatype field_datatype = INT8 | UINT8 | INT16 | UINT16 | INT32 | UINT32 | FLOAT32 | FLOAT64

record point_field =
  field_name :: string
  field_offset :: "32 word"
  field_datatype :: field_datatype
  field_count :: "32 word"

record point_cloud2 = header +
  height :: "32 word"
  width :: "32 word"
  point_fields :: "point_field list"   \<comment> \<open>\<^verbatim>\<open>fields\<close>\<close>
  is_bigendian :: bool
  point_step :: "32 word"
  row_step :: "32 word"
  data :: "8 word list"
  is_dense :: bool

record quaternion =
  qx :: real
  qy :: real
  qz :: real
  qw :: real

record transform_stamped = header +
  child_frame_id :: string
  translation :: point_xyz
  rotation :: quaternion

text \<open>What \<^verbatim>\<open>RCLCPP_WARN\<close> receives, from the tracker's callback and from the loop.\<close>

datatype warning =
    Tracker_warning string
  | No_updated_pose string real   \<comment> \<open>body name, elapsed seconds\<close>

subsection \<open>The capture backend and the object tracker\<close>

record rigid_body =
  rb_name :: string
  rb_position :: point_xyz
  rb_rotation :: quaternion

record frame =
  pointCloud :: "point_xyz list"                  \<comment> \<open>the rows of the \<open>N \<times> 3\<close> matrix\<close>
  rigidBodies :: "(string \<times> rigid_body) list"     \<comment> \<open>a \<^verbatim>\<open>std::map\<close>, in iteration order\<close>

text \<open>
  An \<^verbatim>\<open>Eigen::Affine3f\<close> as the loop reads it: \<^verbatim>\<open>translation()\<close> and the quaternion
  made of \<^verbatim>\<open>rotation()\<close>.
\<close>

record affine3f =
  affine_translation :: point_xyz
  affine_rotation :: quaternion

record tracked_object =
  tracked_name :: string
  lastTransformationValid :: bool
  transformation :: affine3f
  lastValidTime :: int         \<comment> \<open>a time point of \<^verbatim>\<open>high_resolution_clock\<close>, in ticks\<close>

text \<open>
  The collaborators whose code is elsewhere: the two clocks (the reading of the \<open>k\<close>-th
  call), the tracker's constructor and its \<^verbatim>\<open>update\<close>, which returns the objects and the
  messages it hands to the warning callback.
\<close>

record collaborators =
  node_now :: "nat \<Rightarrow> int"
  high_resolution_clock_now :: "nat \<Rightarrow> int"
  new_tracker :: "configuration \<Rightarrow> tracked_object list"
  update_tracker :: "tracked_object list \<Rightarrow> point_xyz list \<Rightarrow> tracked_object list \<times> string list"

subsection \<open>The node's state\<close>

record node =
  node_now_calls :: nat
  chrono_now_calls :: nat
  msgPointCloud :: point_cloud2
  tracker :: "tracked_object list"
  transforms :: "transform_stamped list"
  published_clouds :: "point_cloud2 list"         \<comment> \<open>\<^verbatim>\<open>pubPointCloud->publish\<close>\<close>
  sent_transforms :: "transform_stamped list list" \<comment> \<open>\<^verbatim>\<open>tfbroadcaster.sendTransform\<close>\<close>
  warnings :: "warning list"                      \<comment> \<open>\<^verbatim>\<open>RCLCPP_WARN\<close>\<close>

definition field :: "string \<Rightarrow> 32 word \<Rightarrow> point_field" where
  "field n off =
     \<lparr>field_name = n, field_offset = off, field_datatype = FLOAT32, field_count = 1\<rparr>"

definition initial_msgPointCloud :: point_cloud2 where
  "initial_msgPointCloud =
     \<lparr>stamp = 0, frame_id = ''world'', height = 1, width = 0,
      point_fields = [field ''x'' 0, field ''y'' 4, field ''z'' 8],
      is_bigendian = False, point_step = 12, row_step = 0, data = [], is_dense = True\<rparr>"

definition initial_node :: "tracked_object list \<Rightarrow> node" where
  "initial_node trk =
     \<lparr>node_now_calls = 0, chrono_now_calls = 0, msgPointCloud = initial_msgPointCloud,
      tracker = trk, transforms = [], published_clouds = [], sent_transforms = [],
      warnings = []\<rparr>"

subsection \<open>The frame loop\<close>

text \<open>The bytes of the matrix, row-major, four per \<^verbatim>\<open>float\<close> on a little-endian host.\<close>

definition float_bytes :: "float_ops \<Rightarrow> real \<Rightarrow> 8 word list" where
  "float_bytes fp v =
     (let w = f32_bits fp v
      in [ucast w, ucast (drop_bit 8 w), ucast (drop_bit 16 w), ucast (drop_bit 24 w)])"

definition matrix_bytes :: "float_ops \<Rightarrow> point_xyz list \<Rightarrow> 8 word list" where
  "matrix_bytes fp pointcloud =
     concat (map (\<lambda>row. float_bytes fp (px row) @ float_bytes fp (py row) @ float_bytes fp (pz row))
       pointcloud)"

text \<open>
  \<^verbatim>\<open>msgPointCloud.width\<close> and \<^verbatim>\<open>row_step\<close> are \<^verbatim>\<open>uint32\<close> fields: the 64-bit row count
  and the size of \<^verbatim>\<open>data\<close> are reduced modulo \<open>2 ^ 32\<close> when assigned.
\<close>

definition fill_cloud :: "float_ops \<Rightarrow> int \<Rightarrow> point_xyz list \<Rightarrow> point_cloud2 \<Rightarrow> point_cloud2" where
  "fill_cloud fp time pointcloud msg =
     (let m1 = msg\<lparr>stamp := time\<rparr>;
          m2 = m1\<lparr>width := of_nat (length pointcloud)\<rparr>;
          m3 = m2\<lparr>data := take (length pointcloud * 3 * 4) (matrix_bytes fp pointcloud)\<rparr>
      in m3\<lparr>row_step := of_nat (length (data m3))\<rparr>)"

definition backend_transform :: "int \<Rightarrow> rigid_body \<Rightarrow> transform_stamped" where
  "backend_transform time rigidBody =
     \<lparr>stamp = time, frame_id = ''world'', child_frame_id = rb_name rigidBody,
      translation = \<lparr>px = px (rb_position rigidBody), py = py (rb_position rigidBody),
                     pz = pz (rb_position rigidBody)\<rparr>,
      rotation = \<lparr>qx = qx (rb_rotation rigidBody), qy = qy (rb_rotation rigidBody),
                  qz = qz (rb_rotation rigidBody), qw = qw (rb_rotation rigidBody)\<rparr>\<rparr>"

fun backend_poses ::
  "int \<Rightarrow> (string \<times> rigid_body) list \<Rightarrow> transform_stamped list \<Rightarrow> transform_stamped list" where
  "backend_poses time [] tfs = tfs"
| "backend_poses time (iter # rest) tfs =
     backend_poses time rest (tfs @ [backend_transform time (snd iter)])"

definition tracker_transform :: "int \<Rightarrow> tracked_object \<Rightarrow> transform_stamped" where
  "tracker_transform time rigidBody =
     (let q = affine_rotation (transformation rigidBody);
          t = affine_translation (transformation rigidBody)
      in \<lparr>stamp = time, frame_id = ''world'', child_frame_id = tracked_name rigidBody,
          translation = \<lparr>px = px t, py = py t, pz = pz t\<rparr>,
          rotation = \<lparr>qx = qx q, qy = qy q, qz = qz q, qw = qw q\<rparr>\<rparr>)"

definition stale_warning :: "float_ops \<Rightarrow> int \<Rightarrow> tracked_object \<Rightarrow> warning" where
  "stale_warning fp chrono_now rigidBody =
     No_updated_pose (tracked_name rigidBody)
       (seconds fp (chrono_now - lastValidTime rigidBody))"

text \<open>One pass of the loop over \<^verbatim>\<open>tracker.objects()\<close>.\<close>

definition tracker_pose ::
  "float_ops \<Rightarrow> int \<Rightarrow> int \<Rightarrow> tracked_object
     \<Rightarrow> transform_stamped list \<times> warning list \<Rightarrow> transform_stamped list \<times> warning list" where
  "tracker_pose fp chrono_now time rigidBody st =
     (if lastTransformationValid rigidBody
      then (fst st @ [tracker_transform time rigidBody], snd st)
      else (fst st, snd st @ [stale_warning fp chrono_now rigidBody]))"

fun tracker_poses ::
  "float_ops \<Rightarrow> int \<Rightarrow> int \<Rightarrow> tracked_object list
     \<Rightarrow> transform_stamped list \<times> warning list \<Rightarrow> transform_stamped list \<times> warning list" where
  "tracker_poses fp chrono_now time [] st = st"
| "tracker_poses fp chrono_now time (rigidBody # rest) st =
     tracker_poses fp chrono_now time rest (tracker_pose fp chrono_now time rigidBody st)"

text \<open>The body of the \<^verbatim>\<open>for (frameId ...)\<close> loop, on the frame the backend delivers.\<close>

definition cycle :: "float_ops \<Rightarrow> collaborators \<Rightarrow> node \<Rightarrow> frame \<Rightarrow> node" where
  "cycle fp env nd fr =
     (let chrono_now = high_resolution_clock_now env (chrono_now_calls nd);
          time = node_now env (node_now_calls nd);
          pointcloud = pointCloud fr;
          msg = fill_cloud fp time pointcloud (msgPointCloud nd);
          markers = map (\<lambda>point. \<lparr>px = px point, py = py point, pz = pz point\<rparr>) pointcloud;
          upd = update_tracker env (tracker nd) markers;
          merged = tracker_poses fp chrono_now time (fst upd)
                     (backend_poses time (rigidBodies fr) [],
                      warnings nd @ map Tracker_warning (snd upd))
      in nd\<lparr>node_now_calls := node_now_calls nd + 1,
            chrono_now_calls := chrono_now_calls nd + 1,
            msgPointCloud := msg,
            tracker := fst upd,
            transforms := fst merged,
            published_clouds := published_clouds nd @ [msg],
            sent_transforms :=
              (if length (fst merged) > 0 then sent_transforms nd @ [fst merged]
               else sent_transforms nd),
            warnings := snd merged\<rparr>)"

text \<open>The loop, for the frames delivered while \<^verbatim>\<open>rclcpp::ok()\<close> holds.\<close>

definition frame_loop :: "float_ops \<Rightarrow> collaborators \<Rightarrow> frame list \<Rightarrow> node \<Rightarrow> node" where
  "frame_loop fp env frames nd = foldl (cycle fp env) nd frames"

text \<open>\<^verbatim>\<open>main\<close>: the loop is entered only with a configuration.\<close>

definition run_node ::
  "float_ops \<Rightarrow> collaborators \<Rightarrow> overrides \<Rightarrow> frame list \<Rightarrow> error + node" where
  "run_node fp env parameter_overrides frames =
     bind (build_configuration fp parameter_overrides) (\<lambda>cfg.
       Inr (frame_loop fp env frames (initial_node (new_tracker env cfg))))"

section \<open>What the specification says, in its own words\<close>

text \<open>
  The token of a key under a prefix, as \<^verbatim>\<open>extract_names\<close> cuts it: from the position after
  the prefix and one further character up to the next dot.
\<close>

definition token :: "string \<Rightarrow> string \<Rightarrow> string" where
  "token pattern key = takeWhile (\<lambda>c. c \<noteq> CHR ''.'') (drop (length pattern + 1) key)"

text \<open>
  The specification's set: the immediate child tokens of the keys that begin with the prefix
  followed by a dot.
\<close>

definition child_tokens :: "string set \<Rightarrow> string \<Rightarrow> string set" where
  "child_tokens keys pre =
     {takeWhile (\<lambda>c. c \<noteq> CHR ''.'') rest | rest. pre @ ''.'' @ rest \<in> keys}"

text \<open>The part of the cloud message that \<^verbatim>\<open>main\<close> sets once, before the loop.\<close>

definition cloud_layout :: "point_cloud2 \<Rightarrow> bool" where
  "cloud_layout m =
     (frame_id m = ''world'' \<and> point_step m = 12 \<and>
      point_fields m = [field ''x'' 0, field ''y'' 4, field ''z'' 8])"

text \<open>
  The sum of a point and an offset, component by component, in the arithmetic of the code:
  a \<^verbatim>\<open>double\<close> addition whose result is passed to the \<^verbatim>\<open>float\<close> constructor of
  \<^verbatim>\<open>pcl::PointXYZ\<close>.
\<close>

definition plus_offset :: "float_ops \<Rightarrow> real list \<Rightarrow> real list \<Rightarrow> point_xyz" where
  "plus_offset fp offset points =
     \<lparr>px = d2f fp (dadd fp (points ! 0) (offset ! 0)),
      py = d2f fp (dadd fp (points ! 1) (offset ! 1)),
      pz = d2f fp (dadd fp (points ! 2) (offset ! 2))\<rparr>"

text \<open>The numbers that an array-valued override holds, each with its own value.\<close>

definition array_values :: "parameter_value \<Rightarrow> real list option" where
  "array_values v =
     (case v of
        Integer_array vs \<Rightarrow> Some (map (\<lambda>v. real_of_int (sint v)) vs)
      | Double_array ds \<Rightarrow> Some ds
      | _ \<Rightarrow> None)"

text \<open>
  The declared points of a marker configuration: the values of the sub-keys
  \<^verbatim>\<open>marker_configurations.<name>.points.<idx>\<close>, in key order.
\<close>

definition declared_points :: "overrides \<Rightarrow> string \<Rightarrow> parameter_value list" where
  "declared_points parameter_overrides name =
     map snd
       (filter (\<lambda>param. prefix (''marker_configurations.'' @ name @ ''.points.'') (fst param))
          parameter_overrides)"

text \<open>A stored point is the declared point plus the offset, both arrays of three numbers.\<close>

definition point_plus_offset ::
  "float_ops \<Rightarrow> parameter_value \<Rightarrow> parameter_value \<Rightarrow> point_xyz \<Rightarrow> bool" where
  "point_plus_offset fp offset point pt =
     (\<exists>ov pv. array_values offset = Some ov \<and> array_values point = Some pv
        \<and> 3 \<le> length ov \<and> 3 \<le> length pv \<and> pt = plus_offset fp ov pv)"

text \<open>
  The template of a name, in the specification's words: the name has an offset, and the
  template's points are, one for one and in order, the declared points plus that offset.
\<close>

definition template_of ::
  "float_ops \<Rightarrow> overrides \<Rightarrow> string \<Rightarrow> marker_configuration \<Rightarrow> bool" where
  "template_of fp parameter_overrides name cloud =
     (\<exists>offset.
        map_of parameter_overrides (''marker_configurations.'' @ name @ ''.offset'') = Some offset
        \<and> list_all2 (point_plus_offset fp offset) (declared_points parameter_overrides name) cloud)"

text \<open>Every element of an integer array is in the range of a 32-bit \<^verbatim>\<open>int\<close>.\<close>

definition fits_int :: "parameter_value \<Rightarrow> bool" where
  "fits_int v =
     (case v of
        Integer_array vs \<Rightarrow> list_all (\<lambda>v. - (2 ^ 31) \<le> sint v \<and> sint v < 2 ^ 31) vs
      | _ \<Rightarrow> True)"

section \<open>Concrete inputs\<close>

text \<open>Floating point operations on values where nothing is rounded.\<close>

definition exact_ops :: float_ops where
  "exact_ops =
     \<lparr>dadd = (\<lambda>a b. a + b), d2f = (\<lambda>v. v), f32_bits = (\<lambda>v. 0),
      seconds = (\<lambda>t. real_of_int t / 1000000000)\<rparr>"

text \<open>
  Two dynamics profiles, one marker configuration and the rigid body \<^verbatim>\<open>cf1\<close> that refers to
  the marker configuration \<^verbatim>\<open>m\<close> and to the dynamics profile \<^verbatim>\<open>fast\<close>.
\<close>

definition example_overrides :: overrides where
  "example_overrides =
     [(''dynamics_configurations.fast.max_angular_velocity'', Double_array [20, 20, 10]),
      (''dynamics_configurations.fast.max_fitness_score'', Double 0.001),
      (''dynamics_configurations.fast.max_pitch'', Double 1.4),
      (''dynamics_configurations.fast.max_roll'', Double 1.4),
      (''dynamics_configurations.fast.max_velocity'', Integer_array [4, 4, 6]),
      (''dynamics_configurations.slow.max_angular_velocity'', Double_array [10, 10, 5]),
      (''dynamics_configurations.slow.max_fitness_score'', Double 0.001),
      (''dynamics_configurations.slow.max_pitch'', Double 1),
      (''dynamics_configurations.slow.max_roll'', Double 1),
      (''dynamics_configurations.slow.max_velocity'', Integer_array [2, 2, 3]),
      (''marker_configurations.m.offset'', Integer_array [0, 0, 1]),
      (''marker_configurations.m.points.0'', Integer_array [1, 0, 0]),
      (''rigid_bodies.cf1.dynamics'', String ''fast''),
      (''rigid_bodies.cf1.initial_position'', Double_array [0, 0, 0]),
      (''rigid_bodies.cf1.marker'', String ''m'')]"

text \<open>The same configuration with an initial position of two elements.\<close>

definition short_position_overrides :: overrides where
  "short_position_overrides =
     [(''dynamics_configurations.fast.max_angular_velocity'', Double_array [20, 20, 10]),
      (''dynamics_configurations.fast.max_fitness_score'', Double 0.001),
      (''dynamics_configurations.fast.max_pitch'', Double 1.4),
      (''dynamics_configurations.fast.max_roll'', Double 1.4),
      (''dynamics_configurations.fast.max_velocity'', Integer_array [4, 4, 6]),
      (''marker_configurations.m.offset'', Integer_array [0, 0, 1]),
      (''marker_configurations.m.points.0'', Integer_array [1, 0, 0]),
      (''rigid_bodies.cf1.dynamics'', String ''fast''),
      (''rigid_bodies.cf1.initial_position'', Double_array [0, 0]),
      (''rigid_bodies.cf1.marker'', String ''m'')]"

text \<open>A dynamics profile whose maximal velocity has two elements.\<close>

definition short_velocity_overrides :: overrides where
  "short_velocity_overrides =
     [(''dynamics_configurations.fast.max_angular_velocity'', Double_array [20, 20, 10]),
      (''dynamics_configurations.fast.max_fitness_score'', Double 0.001),
      (''dynamics_configurations.fast.max_pitch'', Double 1.4),
      (''dynamics_configurations.fast.max_roll'', Double 1.4),
      (''dynamics_configurations.fast.max_velocity'', Integer_array [4, 4])]"

text \<open>The marker template of the specification's example.\<close>

definition marker_example :: overrides where
  "marker_example =
     [(''marker_configurations.m.offset'', Double_array [0, 0, 1]),
      (''marker_configurations.m.points.0'', Double_array [1, 0, 0])]"

text \<open>The example's template with the point \<open>[2 ^ 31, 0, 0]\<close>, given as integers.\<close>

definition large_point_overrides :: overrides where
  "large_point_overrides =
     [(''marker_configurations.m.offset'', Integer_array [0, 0, 1]),
      (''marker_configurations.m.points.0'', Integer_array [2147483648, 0, 0])]"

text \<open>The example's template and one more key, which is no \<^verbatim>\<open>points.<idx>\<close> sub-key.\<close>

definition points_per_body_overrides :: overrides where
  "points_per_body_overrides =
     [(''marker_configurations.m.offset'', Double_array [0, 0, 1]),
      (''marker_configurations.m.points.0'', Double_array [1, 0, 0]),
      (''marker_configurations.m.points_per_body'', Double_array [9, 9, 9])]"

text \<open>
  A cycle's inputs: a tracker of two bodies, one with a valid fit, and a frame of one marker
  in which the backend reports the body \<^verbatim>\<open>cf1\<close> itself.
\<close>

definition origin :: point_xyz where
  "origin = \<lparr>px = 0, py = 0, pz = 0\<rparr>"

definition unit_quaternion :: quaternion where
  "unit_quaternion = \<lparr>qx = 0, qy = 0, qz = 0, qw = 1\<rparr>"

definition example_tracker :: "tracked_object list" where
  "example_tracker =
     [\<lparr>tracked_name = ''cf1'', lastTransformationValid = True,
       transformation = \<lparr>affine_translation = \<lparr>px = 1, py = 2, pz = 3\<rparr>,
                         affine_rotation = unit_quaternion\<rparr>,
       lastValidTime = 50\<rparr>,
      \<lparr>tracked_name = ''cf2'', lastTransformationValid = False,
       transformation = \<lparr>affine_translation = origin, affine_rotation = unit_quaternion\<rparr>,
       lastValidTime = 20\<rparr>]"

definition example_collaborators :: collaborators where
  "example_collaborators =
     \<lparr>node_now = (\<lambda>k. 1000 + int k),
      high_resolution_clock_now = (\<lambda>k. 50 + int k),
      new_tracker = (\<lambda>cfg. example_tracker),
      update_tracker = (\<lambda>objs markers. (objs, []))\<rparr>"

definition example_frame :: frame where
  "example_frame =
     \<lparr>pointCloud = [\<lparr>px = 1, py = 2, pz = 3\<rparr>],
      rigidBodies = [(''cf1'', \<lparr>rb_name = ''cf1'', rb_position = origin,
                               rb_rotation = unit_quaternion\<rparr>)]\<rparr>"

text \<open>A frame of \<open>2 ^ 32\<close> markers.\<close>

definition huge_frame :: frame where
  "huge_frame = \<lparr>pointCloud = replicate (2 ^ 32) origin, rigidBodies = []\<rparr>"

section \<open>Basic facts\<close>

lemma bind_simps [simp]: "bind (Inl e) f = Inl e" "bind (Inr x) f = f x"
  by (simp_all add: bind_def)

lemma bind_eq_Inr: "bind r f = Inr y \<longleftrightarrow> (\<exists>x. r = Inr x \<and> f x = Inr y)"
  by (cases r) simp_all

lemma vec_index_eq_Inr: "vec_index v k = Inr a \<longleftrightarrow> k < length v \<and> a = v ! k"
  by (auto simp: vec_index_def)

lemma index_at_eq_Inr: "index_at m k = Inr i \<longleftrightarrow> m k = Some i"
  by (simp add: index_at_def split: option.splits)

lemma find_first_zero: "find_first t s = Some 0 \<longleftrightarrow> prefix t s"
  by (cases s) auto

lemma str_find_zero: "str_find s t 0 = Some 0 \<longleftrightarrow> prefix t s"
  by (simp add: str_find_def find_first_zero option.map_ident)

lemma find_first_char:
  "find_first [c] s =
     (if c \<in> set s then Some (length (takeWhile (\<lambda>d. d \<noteq> c) s)) else None)"
  by (induction s) auto

lemmas eval_defs =
  extract_names_def str_find_def substr_def set_insert_def read_dynamics_def at_key_def
  get_vec_def get_double_def get_string_def get_double_array_def vec_at_def vec_index_def
  index_at_def int_of_int64_def

section \<open>\<^verbatim>\<open>extract_names\<close>\<close>

lemma substr_token:
  assumes "start \<le> length key"
  shows "substr key start (map_option (\<lambda>e. e - start) (str_find key ''.'' start)) =
         Inr (takeWhile (\<lambda>c. c \<noteq> CHR ''.'') (drop start key))"
proof (cases "CHR ''.'' \<in> set (drop start key)")
  case True
  then show ?thesis
    using assms
    by (simp add: substr_def str_find_def find_first_char takeWhile_eq_take [symmetric])
next
  case False
  then have tw: "takeWhile (\<lambda>c. c \<noteq> CHR ''.'') (drop start key) = drop start key"
    by (intro takeWhile_eq_all_conv [THEN iffD2]) auto
  from False assms have nf: "str_find key ''.'' start = None"
    by (simp add: str_find_def find_first_char)
  show ?thesis
    unfolding tw nf using assms by (simp add: substr_def)
qed

lemma substr_start_token:
  "Suc (length pattern) \<le> length key \<Longrightarrow>
     substr key (Suc (length pattern))
       (map_option (\<lambda>e. e - Suc (length pattern)) (str_find key ''.'' (Suc (length pattern)))) =
     Inr (token pattern key)"
  by (simp add: substr_token token_def)

lemma substr_past_end: "length key < pos \<Longrightarrow> substr key pos count = Inl Out_of_range"
  by (simp add: substr_def)

lemma prefix_short: "prefix pattern key \<Longrightarrow> length key < length pattern + 1 \<Longrightarrow> key = pattern"
  by (auto simp: prefix_def)

text \<open>
  The loop fails exactly when a key is the pattern itself; otherwise it inserts the token of
  every key that begins with the pattern, whatever character follows the pattern.
\<close>

lemma extract_names_loop_result:
  "extract_names_loop ps pattern acc =
     (if pattern \<in> fst ` set ps then Inl Out_of_range
      else Inr (fold set_insert (map (token pattern) (filter (prefix pattern) (map fst ps))) acc))"
proof (induction ps arbitrary: acc)
  case Nil
  show ?case by simp
next
  case (Cons i rest)
  show ?case
  proof (cases "prefix pattern (fst i)")
    case False
    then have "fst i \<noteq> pattern" by auto
    with False Cons show ?thesis by (simp add: str_find_zero)
  next
    case True
    show ?thesis
    proof (cases "fst i = pattern")
      case eq: True
      then show ?thesis
        by (simp add: str_find_zero Let_def substr_past_end)
    next
      case neq: False
      with True have "length pattern + 1 \<le> length (fst i)"
        using prefix_short [of pattern "fst i"]
        by (cases "length (fst i) < length pattern + 1") auto
      then show ?thesis
        using True neq Cons
        by (simp add: str_find_zero Let_def substr_start_token)
    qed
  qed
qed

lemma set_insert_props:
  "set (set_insert x xs) = insert x (set xs)"
  "sorted xs \<Longrightarrow> sorted (set_insert x xs)"
  "distinct xs \<Longrightarrow> distinct (set_insert x xs)"
  by (auto simp: set_insert_def set_insort_key sorted_insort distinct_insort)

lemma fold_set_insert:
  "set (fold set_insert ts acc) = set ts \<union> set acc"
  "sorted acc \<Longrightarrow> distinct acc \<Longrightarrow>
     sorted (fold set_insert ts acc) \<and> distinct (fold set_insert ts acc)"
  by (induction ts arbitrary: acc) (auto simp: set_insert_props)

text \<open>The result depends on the set of keys only, not on the order of the entries.\<close>

lemma extract_names_tokens:
  "extract_names ps pattern =
     (if pattern \<in> fst ` set ps then Inl Out_of_range
      else Inr (sorted_list_of_set (token pattern ` {key \<in> fst ` set ps. prefix pattern key})))"
proof -
  let ?ts = "map (token pattern) (filter (prefix pattern) (map fst ps))"
  have "sorted (fold set_insert ?ts []) \<and> distinct (fold set_insert ?ts [])"
    by (rule fold_set_insert) simp_all
  moreover have "set (fold set_insert ?ts []) =
      token pattern ` {key \<in> fst ` set ps. prefix pattern key}"
    by (auto simp: fold_set_insert)
  ultimately have "fold set_insert ?ts [] =
      sorted_list_of_set (token pattern ` {key \<in> fst ` set ps. prefix pattern key})"
    by (metis sorted_list_of_set.idem_if_sorted_distinct)
  then show ?thesis
    by (simp add: extract_names_def extract_names_loop_result)
qed

lemma child_tokens_eq:
  assumes "\<forall>key \<in> keys. prefix pattern key \<longrightarrow> prefix (pattern @ ''.'') key"
  shows "token pattern ` {key \<in> keys. prefix pattern key} = child_tokens keys pattern"
proof -
  have "\<exists>rest. key = pattern @ ''.'' @ rest
          \<and> token pattern key = takeWhile (\<lambda>c. c \<noteq> CHR ''.'') rest"
    if "key \<in> keys" "prefix pattern key" for key
  proof -
    from that assms obtain rest where "key = (pattern @ ''.'') @ rest"
      by (auto simp: prefix_def)
    then show ?thesis by (auto simp: token_def)
  qed
  moreover have "prefix pattern (pattern @ ''.'' @ rest)
      \<and> token pattern (pattern @ ''.'' @ rest) = takeWhile (\<lambda>c. c \<noteq> CHR ''.'') rest" for rest
    by (simp add: token_def)
  ultimately show ?thesis
    unfolding child_tokens_def by (fastforce simp: image_iff)
qed

text \<open>
  Where every key that begins with the pattern goes on with a dot, the code returns the
  specification's set.
\<close>

lemma extract_names_child_tokens:
  assumes "\<forall>key \<in> fst ` set ps. prefix pattern key \<longrightarrow> prefix (pattern @ ''.'') key"
  shows "extract_names ps pattern = Inr (sorted_list_of_set (child_tokens (fst ` set ps) pattern))"
proof -
  have "pattern \<notin> fst ` set ps"
    using assms by (auto simp: prefix_def)
  then show ?thesis
    using child_tokens_eq [OF assms] by (simp add: extract_names_tokens)
qed

text \<open>
  C2. The claim: for any override map and prefix, \<^verbatim>\<open>extract_names\<close> returns exactly the
  distinct immediate child tokens of the keys that begin with the prefix and a dot, and
  ignores every other key. The code tests for the prefix alone and then skips one character
  unseen: with the single key \<^verbatim>\<open>rigid_bodies_enabled\<close> and the prefix \<^verbatim>\<open>rigid_bodies\<close>,
  no key begins with \<^verbatim>\<open>rigid_bodies.\<close>, so the specification's set is empty, and the code
  returns the name \<^verbatim>\<open>enabled\<close>.
\<close>

theorem extract_names_takes_unrelated_key:
  "extract_names [(''rigid_bodies_enabled'', Bool True)] ''rigid_bodies'' = Inr [''enabled'']
   \<and> child_tokens (fst ` set [(''rigid_bodies_enabled'', Bool True)]) ''rigid_bodies'' = {}"
  by (simp add: eval_defs child_tokens_def)

text \<open>
  C9. The claim: on a key that is exactly the prefix, the substring logic underflows or
  behaves undefined. With the single key \<^verbatim>\<open>rigid_bodies\<close> and that prefix, \<^verbatim>\<open>find\<close>
  from the start index returns \<^verbatim>\<open>npos\<close>, so the count \<^verbatim>\<open>end - start\<close> does not wrap,
  and the result is \<^verbatim>\<open>std::out_of_range\<close>, an exception that \<^verbatim>\<open>substr\<close> is defined to
  throw, not undefined behaviour.
\<close>

theorem key_equal_to_prefix_is_a_defined_exception:
  "str_find ''rigid_bodies'' ''.'' (length ''rigid_bodies'' + 1) = None
   \<and> extract_names [(''rigid_bodies'', Bool True)] ''rigid_bodies'' = Inl Out_of_range
   \<and> is_exception Out_of_range
   \<and> extract_names [(''rigid_bodies'', Bool True)] ''rigid_bodies'' \<noteq> Inl Undefined_behaviour"
  by (simp add: eval_defs is_exception_def)

text \<open>
  C9, amended. A key that is exactly the prefix passes the prefix test; the token would
  start at the prefix length plus one, which is past the end of the key, so \<^verbatim>\<open>find\<close>
  returns \<^verbatim>\<open>npos\<close> and \<^verbatim>\<open>substr\<close> throws \<^verbatim>\<open>std::out_of_range\<close> whatever the count
  is: \<^verbatim>\<open>extract_names\<close> ends in that exception, which is no undefined behaviour,
  instead of ignoring the key.
\<close>

theorem key_equal_to_prefix_throws:
  assumes "(key, v) \<in> set parameter_overrides" and "key = pattern"
  shows "str_find key pattern 0 = Some 0
         \<and> length key < length pattern + 1
         \<and> str_find key ''.'' (length pattern + 1) = None
         \<and> substr key (length pattern + 1) count = Inl Out_of_range
         \<and> extract_names parameter_overrides pattern = Inl Out_of_range
         \<and> is_exception Out_of_range"
proof -
  have "pattern \<in> fst ` set parameter_overrides"
    using assms by force
  moreover have "str_find key ''.'' (length pattern + 1) = None"
    using assms(2) by (simp add: str_find_def)
  ultimately show ?thesis
    using assms(2)
    by (simp add: extract_names_tokens substr_past_end str_find_zero is_exception_def)
qed

theorem key_equal_to_prefix_throws_witness:
  "(''rigid_bodies'', Bool True) \<in> set [(''rigid_bodies'', Bool True)]
   \<and> extract_names [(''rigid_bodies'', Bool True)] ''rigid_bodies'' = Inl Out_of_range"
  using key_equal_to_prefix_throws
    [of "''rigid_bodies''" "Bool True" "[(''rigid_bodies'', Bool True)]" "''rigid_bodies''"]
  by simp

section \<open>\<^verbatim>\<open>get_vec\<close>\<close>

lemma get_vec_length: "get_vec (Integer_array int_vec) = Inr result \<Longrightarrow> length result = length int_vec"
  by (auto simp: get_vec_def)

lemma get_vec_double_array: "get_vec (Double_array ds) = Inr ds"
  by (simp add: get_vec_def get_double_array_def)

lemma sint_int_of_int64: "sint (int_of_int64 v) = signed_take_bit 31 (sint v)"
  unfolding int_of_int64_def by transfer (simp add: signed_take_bit_take_bit)

text \<open>Elements that fit a 32-bit \<^verbatim>\<open>int\<close> keep their value.\<close>

lemma get_vec_in_range:
  assumes "\<forall>v \<in> set int_vec. - (2 ^ 31) \<le> sint v \<and> sint v < 2 ^ 31"
  shows "get_vec (Integer_array int_vec) = Inr (map (\<lambda>v. real_of_int (sint v)) int_vec)"
  using assms by (simp add: get_vec_def sint_int_of_int64 signed_take_bit_int_eq_self)

text \<open>
  C3. The claim: on an integer array \<^verbatim>\<open>get_vec\<close> returns a sequence of the same length
  whose elements have the values of the input's elements. The length is kept, but the
  elements pass through a 32-bit \<^verbatim>\<open>int\<close>: the array holding \<open>2 ^ 31 = 2147483648\<close> comes
  back as \<open>- 2147483648\<close>.
\<close>

theorem get_vec_narrows_to_int:
  "map (\<lambda>v. real_of_int (sint v)) [2147483648 :: 64 word] = [2147483648]
   \<and> get_vec (Integer_array [2147483648]) = Inr [- 2147483648]"
  by (simp add: get_vec_def int_of_int64_def)

section \<open>The frame loop\<close>

subsection \<open>The two loops that fill the batch\<close>

lemma backend_poses_append:
  "backend_poses time bodies tfs = tfs @ map (\<lambda>iter. backend_transform time (snd iter)) bodies"
  by (induction bodies arbitrary: tfs) simp_all

lemma tracker_poses_split:
  "tracker_poses fp chrono_now time objs st =
     (fst st @ map (tracker_transform time) (filter lastTransformationValid objs),
      snd st @ map (stale_warning fp chrono_now)
                 (filter (\<lambda>rigidBody. \<not> lastTransformationValid rigidBody) objs))"
  by (induction objs arbitrary: st) (simp_all add: tracker_pose_def)

lemma markers_of_pointcloud:
  "map (\<lambda>point. \<lparr>px = px point, py = py point, pz = pz point\<rparr>) pointcloud = pointcloud"
  by (induction pointcloud) simp_all

lemma tracker_transform_fields:
  "tracker_transform time rigidBody =
     \<lparr>stamp = time, frame_id = ''world'', child_frame_id = tracked_name rigidBody,
      translation = affine_translation (transformation rigidBody),
      rotation = affine_rotation (transformation rigidBody)\<rparr>"
  by (simp add: tracker_transform_def Let_def)

lemma backend_transform_fields:
  "backend_transform time rigidBody =
     \<lparr>stamp = time, frame_id = ''world'', child_frame_id = rb_name rigidBody,
      translation = rb_position rigidBody, rotation = rb_rotation rigidBody\<rparr>"
  by (simp add: backend_transform_def)

subsection \<open>What a cycle leaves in the node\<close>

lemma tracker_cycle:
  "tracker (cycle fp env nd fr) = fst (update_tracker env (tracker nd) (pointCloud fr))"
  by (simp add: cycle_def Let_def markers_of_pointcloud)

lemma transforms_cycle:
  "transforms (cycle fp env nd fr) =
     map (\<lambda>iter. backend_transform (node_now env (node_now_calls nd)) (snd iter)) (rigidBodies fr) @
     map (tracker_transform (node_now env (node_now_calls nd)))
       (filter lastTransformationValid (fst (update_tracker env (tracker nd) (pointCloud fr))))"
  by (simp add: cycle_def Let_def backend_poses_append tracker_poses_split markers_of_pointcloud)


lemma sent_transforms_cycle:
  "sent_transforms (cycle fp env nd fr) =
     (if transforms (cycle fp env nd fr) = [] then sent_transforms nd
      else sent_transforms nd @ [transforms (cycle fp env nd fr)])"
  by (simp add: cycle_def Let_def)

lemma msgPointCloud_cycle:
  "msgPointCloud (cycle fp env nd fr) =
     fill_cloud fp (node_now env (node_now_calls nd)) (pointCloud fr) (msgPointCloud nd)"
  by (simp add: cycle_def Let_def)

lemma published_clouds_cycle:
  "published_clouds (cycle fp env nd fr) =
     published_clouds nd @ [msgPointCloud (cycle fp env nd fr)]"
  by (simp add: cycle_def Let_def)

lemma clock_calls_cycle:
  "node_now_calls (cycle fp env nd fr) = node_now_calls nd + 1"
  "chrono_now_calls (cycle fp env nd fr) = chrono_now_calls nd + 1"
  by (simp_all add: cycle_def Let_def)

lemmas example_cycle_defs =
  exact_ops_def example_collaborators_def example_tracker_def example_frame_def
  initial_node_def origin_def unit_quaternion_def



text \<open>
  C5. A cycle calls \<^verbatim>\<open>node->now()\<close> once, and that reading is the stamp of the cloud
  message the cycle publishes and of every transform of the cycle's batch, which is the batch
  that is sent when it is not empty.
\<close>

theorem one_stamp_per_cycle:
  fixes fp env nd fr
  defines "nd' \<equiv> cycle fp env nd fr"
    and "time \<equiv> node_now env (node_now_calls nd)"
  shows "node_now_calls nd' = node_now_calls nd + 1
         \<and> published_clouds nd' = published_clouds nd @ [msgPointCloud nd']
         \<and> stamp (msgPointCloud nd') = time
         \<and> (\<forall>tf \<in> set (transforms nd'). stamp tf = time)
         \<and> sent_transforms nd' =
             (if transforms nd' = [] then sent_transforms nd
              else sent_transforms nd @ [transforms nd'])"
proof -
  have "stamp (msgPointCloud nd') = time"
    unfolding nd'_def time_def by (simp add: msgPointCloud_cycle fill_cloud_def Let_def)
  moreover have "\<forall>tf \<in> set (transforms nd'). stamp tf = time"
    unfolding nd'_def time_def
    by (auto simp: transforms_cycle tracker_transform_fields backend_transform_fields)
  ultimately show ?thesis
    unfolding nd'_def
    by (simp add: clock_calls_cycle published_clouds_cycle sent_transforms_cycle)
qed

theorem one_stamp_per_cycle_witness:
  "map stamp (transforms (cycle exact_ops example_collaborators (initial_node example_tracker)
                            example_frame)) = [1000, 1000]
   \<and> stamp (msgPointCloud (cycle exact_ops example_collaborators (initial_node example_tracker)
                              example_frame)) = 1000
   \<and> sent_transforms (cycle exact_ops example_collaborators (initial_node example_tracker)
                         example_frame) =
       [transforms (cycle exact_ops example_collaborators (initial_node example_tracker)
                      example_frame)]"
  using one_stamp_per_cycle
    [where fp = exact_ops and env = example_collaborators
       and nd = "initial_node example_tracker" and fr = example_frame]
  by (simp add: transforms_cycle tracker_transform_fields backend_transform_fields
      example_cycle_defs)

text \<open>
  C10. The batch of a cycle starts empty and is the backend's transforms, one for every
  body the backend reports, followed by the tracker's transforms, one for every tracked body
  with a valid fit: every backend transform is at a smaller index than every tracker
  transform, also where the two have the same child frame name.
\<close>

theorem backend_transforms_precede_tracker_transforms:
  fixes fp env nd fr
  defines "nd' \<equiv> cycle fp env nd fr"
    and "time \<equiv> node_now env (node_now_calls nd)"
  shows "transforms nd' =
           map (\<lambda>iter. backend_transform time (snd iter)) (rigidBodies fr) @
           map (tracker_transform time) (filter lastTransformationValid (tracker nd'))
         \<and> take (length (rigidBodies fr)) (transforms nd') =
           map (\<lambda>iter. backend_transform time (snd iter)) (rigidBodies fr)
         \<and> drop (length (rigidBodies fr)) (transforms nd') =
           map (tracker_transform time) (filter lastTransformationValid (tracker nd'))"
  unfolding nd'_def time_def
  by (simp add: transforms_cycle tracker_cycle)

theorem backend_transforms_precede_tracker_transforms_witness:
  "map (\<lambda>tf. (child_frame_id tf, translation tf))
     (transforms (cycle exact_ops example_collaborators (initial_node example_tracker)
                    example_frame)) =
     [(''cf1'', \<lparr>px = 0, py = 0, pz = 0\<rparr>), (''cf1'', \<lparr>px = 1, py = 2, pz = 3\<rparr>)]"
  using backend_transforms_precede_tracker_transforms
    [where fp = exact_ops and env = example_collaborators
       and nd = "initial_node example_tracker" and fr = example_frame]
  by (simp add: tracker_cycle tracker_transform_fields backend_transform_fields
      example_cycle_defs)

subsection \<open>The cloud message\<close>

lemma length_float_bytes: "length (float_bytes fp v) = 4"
  by (simp add: float_bytes_def Let_def)

lemma length_matrix_bytes: "length (matrix_bytes fp pointcloud) = length pointcloud * 12"
  by (induction pointcloud) (simp_all add: matrix_bytes_def length_float_bytes)

lemma fill_cloud_fields:
  "stamp (fill_cloud fp time pointcloud msg) = time"
  "width (fill_cloud fp time pointcloud msg) = of_nat (length pointcloud)"
  "length (data (fill_cloud fp time pointcloud msg)) = length pointcloud * 12"
  "frame_id (fill_cloud fp time pointcloud msg) = frame_id msg"
  "point_step (fill_cloud fp time pointcloud msg) = point_step msg"
  "point_fields (fill_cloud fp time pointcloud msg) = point_fields msg"
  by (simp_all add: fill_cloud_def Let_def length_matrix_bytes)

lemma cloud_layout_fill:
  "cloud_layout msg \<Longrightarrow> cloud_layout (fill_cloud fp time pointcloud msg)"
  by (simp add: cloud_layout_def fill_cloud_fields)

lemma cloud_layout_loop:
  "cloud_layout (msgPointCloud nd) \<Longrightarrow>
     cloud_layout (msgPointCloud (frame_loop fp env frames nd))"
  unfolding frame_loop_def
  by (induction frames arbitrary: nd) (simp_all add: msgPointCloud_cycle cloud_layout_fill)

lemma cloud_layout_initial: "cloud_layout (msgPointCloud (initial_node trk))"
  by (simp add: initial_node_def initial_msgPointCloud_def cloud_layout_def)

text \<open>Every cycle publishes one cloud message.\<close>

lemma length_published_loop:
  "length (published_clouds (frame_loop fp env frames nd)) =
     length (published_clouds nd) + length frames"
  unfolding frame_loop_def
  by (induction frames arbitrary: nd) (simp_all add: published_clouds_cycle)

lemma unat_width: "n < 2 ^ 32 \<Longrightarrow> unat (of_nat n :: 32 word) = n"
  by (simp add: unat_of_nat)

text \<open>
  C6. The claim: every cycle publishes the cloud message, with width \<open>N\<close>, the number of
  captured points, \<open>width * 12\<close> bytes of data, the fields \<open>x\<close>, \<open>y\<close>, \<open>z\<close> as
  \<^verbatim>\<open>float32\<close> at the offsets 0, 4 and 8, a point step of 12 and the frame \<^verbatim>\<open>world\<close>.
  The width is a \<^verbatim>\<open>uint32\<close>: with \<open>2 ^ 32\<close> points it is 0, while the data has
  \<open>2 ^ 32 * 12\<close> bytes.
\<close>

theorem cloud_width_wraps_at_2_32:
  "length (pointCloud huge_frame) = 2 ^ 32
   \<and> unat (width (msgPointCloud
        (cycle exact_ops example_collaborators (initial_node example_tracker) huge_frame))) \<noteq>
      length (pointCloud huge_frame)
   \<and> length (data (msgPointCloud
        (cycle exact_ops example_collaborators (initial_node example_tracker) huge_frame))) \<noteq>
      unat (width (msgPointCloud
        (cycle exact_ops example_collaborators (initial_node example_tracker) huge_frame))) * 12"
  by (simp add: msgPointCloud_cycle fill_cloud_fields huge_frame_def)

text \<open>
  C6, amended. In every cycle of the loop, whatever the frames before it, one cloud message
  is published, also for an empty cloud; when the number of captured points \<open>N\<close> is below
  \<open>2 ^ 32\<close>, its width is \<open>N\<close> and its data has \<open>width * 12\<close> bytes; its fields are
  \<open>x\<close>, \<open>y\<close>, \<open>z\<close>, each one \<^verbatim>\<open>float32\<close>, at the offsets 0, 4 and 8, its point step is
  12 and its frame is \<^verbatim>\<open>world\<close>.
\<close>

theorem cloud_message_each_cycle:
  fixes fp env frames trk fr
  defines "nd \<equiv> frame_loop fp env frames (initial_node trk)"
  defines "m \<equiv> msgPointCloud (cycle fp env nd fr)"
  shows "published_clouds (cycle fp env nd fr) = published_clouds nd @ [m]
         \<and> length (data m) = length (pointCloud fr) * 12
         \<and> (length (pointCloud fr) < 2 ^ 32 \<longrightarrow>
              unat (width m) = length (pointCloud fr) \<and> length (data m) = unat (width m) * 12)
         \<and> point_fields m =
             [\<lparr>field_name = ''x'', field_offset = 0, field_datatype = FLOAT32, field_count = 1\<rparr>,
              \<lparr>field_name = ''y'', field_offset = 4, field_datatype = FLOAT32, field_count = 1\<rparr>,
              \<lparr>field_name = ''z'', field_offset = 8, field_datatype = FLOAT32, field_count = 1\<rparr>]
         \<and> point_step m = 12
         \<and> frame_id m = ''world''"
proof -
  have lay: "cloud_layout (msgPointCloud nd)"
    unfolding nd_def by (rule cloud_layout_loop) (rule cloud_layout_initial)
  have w: "unat (width m) = length (pointCloud fr)" if "length (pointCloud fr) < 2 ^ 32"
    unfolding m_def using that by (simp add: msgPointCloud_cycle fill_cloud_fields unat_width)
  have d: "length (data m) = length (pointCloud fr) * 12"
    unfolding m_def by (simp add: msgPointCloud_cycle fill_cloud_fields)
  have l: "cloud_layout m"
    unfolding m_def using lay by (simp add: msgPointCloud_cycle cloud_layout_fill)
  show ?thesis
    using w d l unfolding m_def
    by (simp add: published_clouds_cycle cloud_layout_def field_def)
qed

theorem cloud_message_each_cycle_witness:
  "length (pointCloud example_frame) < 2 ^ 32
   \<and> unat (width (msgPointCloud (cycle exact_ops example_collaborators
        (frame_loop exact_ops example_collaborators [example_frame] (initial_node example_tracker))
        example_frame))) = 1
   \<and> length (data (msgPointCloud (cycle exact_ops example_collaborators
        (frame_loop exact_ops example_collaborators [example_frame] (initial_node example_tracker))
        example_frame))) = 12"
proof -
  have h: "length (pointCloud example_frame) < 2 ^ 32"
    by (simp add: example_frame_def)
  have n: "length (pointCloud example_frame) = 1"
    by (simp add: example_frame_def)
  show ?thesis
    using h n cloud_message_each_cycle
      [where fp = exact_ops and env = example_collaborators
         and frames = "[example_frame]" and trk = example_tracker and fr = example_frame]
    by simp
qed

text \<open>An empty cloud is published like any other.\<close>

lemma empty_cloud_is_published:
  "published_clouds (cycle fp env nd \<lparr>pointCloud = [], rigidBodies = bodies\<rparr>) =
     published_clouds nd @ [msgPointCloud (cycle fp env nd \<lparr>pointCloud = [], rigidBodies = bodies\<rparr>)]
   \<and> width (msgPointCloud (cycle fp env nd \<lparr>pointCloud = [], rigidBodies = bodies\<rparr>)) = 0
   \<and> data (msgPointCloud (cycle fp env nd \<lparr>pointCloud = [], rigidBodies = bodies\<rparr>)) = []"
  by (simp add: published_clouds_cycle msgPointCloud_cycle fill_cloud_def Let_def)

section \<open>Building the configuration\<close>

lemma build_configuration_Inr:
  "build_configuration fp po = Inr cfg \<Longrightarrow>
     \<exists>dnames dcs didx i mnames mcs midx rnames objs.
       extract_names po ''dynamics_configurations'' = Inr dnames
     \<and> dynamics_loop po dnames (replicate (length dnames) zero_dynamics, Map.empty, 0) =
         Inr (dcs, didx, i)
     \<and> extract_names po ''marker_configurations'' = Inr mnames
     \<and> marker_loop fp po mnames i ([], Map.empty) = Inr (mcs, midx)
     \<and> extract_names po ''rigid_bodies'' = Inr rnames
     \<and> objects_loop fp po rnames midx didx [] = Inr objs
     \<and> cfg = \<lparr>dynamicsConfigurations = dcs, markerConfigurations = mcs, objects = objs\<rparr>"
  unfolding build_configuration_def
  by (fastforce simp: bind_eq_Inr split: prod.splits)

subsection \<open>Marker templates\<close>

text \<open>
  What the inner loop stores: a point for every override whose key begins with \<open>pre\<close>,
  made of the array that \<^verbatim>\<open>get_vec\<close> returns for it and of the offset.
\<close>

lemma points_loop_result:
  "points_loop fp ps pre offset cloud = Inr cloud' \<Longrightarrow>
     \<exists>new. cloud' = cloud @ new
       \<and> list_all2
           (\<lambda>param pt. \<exists>points. get_vec (snd param) = Inr points \<and> 3 \<le> length points
              \<and> 3 \<le> length offset \<and> pt = plus_offset fp offset points)
           (filter (\<lambda>param. prefix pre (fst param)) ps) new"
  (is "_ \<Longrightarrow> \<exists>new. _ \<and> list_all2 ?R _ new")
proof (induction ps arbitrary: cloud)
  case Nil
  then show ?case by simp
next
  case (Cons param rest)
  show ?case
  proof (cases "prefix pre (fst param)")
    case False
    with Cons show ?thesis by (simp add: str_find_zero)
  next
    case True
    with Cons.prems obtain points where
      gv: "get_vec (snd param) = Inr points" and len: "3 \<le> length points" "3 \<le> length offset"
      and rest: "points_loop fp rest pre offset (cloud @ [plus_offset fp offset points]) = Inr cloud'"
      by (auto simp: str_find_zero bind_eq_Inr vec_index_eq_Inr plus_offset_def)
    from Cons.IH [OF rest] obtain new where
      new: "cloud' = (cloud @ [plus_offset fp offset points]) @ new"
        "list_all2 ?R (filter (\<lambda>param. prefix pre (fst param)) rest) new"
      by blast
    have "?R param (plus_offset fp offset points)"
      using gv len by auto
    with new True show ?thesis
      by (intro exI [of _ "plus_offset fp offset points # new"]) simp
  qed
qed

text \<open>
  Where an integer array fits the 32-bit \<^verbatim>\<open>int\<close>, \<^verbatim>\<open>get_vec\<close> returns the numbers
  that the override holds.
\<close>

lemma get_vec_array_values:
  "fits_int v \<Longrightarrow> get_vec v = Inr xs \<Longrightarrow> array_values v = Some xs"
  by (cases v)
    (auto simp: get_vec_def get_double_array_def array_values_def fits_int_def list_all_iff
      sint_int_of_int64 signed_take_bit_int_eq_self)

lemma marker_loop_templates:
  assumes fits: "\<forall>param \<in> set po. fits_int (snd param)"
    and keys: "\<forall>param \<in> set po. \<forall>name.
        prefix (''marker_configurations.'' @ name @ ''.points'') (fst param) \<longrightarrow>
        prefix (''marker_configurations.'' @ name @ ''.points.'') (fst param)"
  shows "marker_loop fp po names i (mcs, idx) = Inr (mcs', idx') \<Longrightarrow>
     \<exists>new. mcs' = mcs @ new \<and> list_all2 (template_of fp po) names new"
proof (induction names arbitrary: mcs idx)
  case Nil
  then show ?case by simp
next
  case (Cons name names)
  let ?code = "\<lambda>param. prefix (''marker_configurations.'' @ name @ ''.points'') (fst param)"
  let ?spec = "\<lambda>param. prefix (''marker_configurations.'' @ name @ ''.points.'') (fst param)"
  from Cons.prems obtain p offset cloud where
    a: "at_key po (''marker_configurations.'' @ name @ ''.offset'') = Inr p"
    and g: "get_vec p = Inr offset"
    and pl: "points_loop fp po (''marker_configurations.'' @ name @ ''.points'') offset [] =
               Inr cloud"
    and rest: "marker_loop fp po names i (mcs @ [cloud], idx(name \<mapsto> i)) = Inr (mcs', idx')"
    by (auto simp: bind_eq_Inr)
  from a have m: "map_of po (''marker_configurations.'' @ name @ ''.offset'') = Some p"
    by (simp add: at_key_def split: option.splits)
  then have "(''marker_configurations.'' @ name @ ''.offset'', p) \<in> set po"
    by (rule map_of_SomeD)
  with fits have fo: "fits_int p" by force
  have ov: "array_values p = Some offset"
    by (rule get_vec_array_values [OF fo g])
  have same: "filter ?code po = filter ?spec po"
  proof (rule filter_cong [OF refl])
    fix param assume "param \<in> set po"
    moreover have "?spec param \<Longrightarrow> ?code param"
      by (auto simp: prefix_def)
    ultimately show "?code param = ?spec param"
      using keys by blast
  qed
  from points_loop_result [OF pl]
  have "list_all2
      (\<lambda>param pt. \<exists>points. get_vec (snd param) = Inr points \<and> 3 \<le> length points
         \<and> 3 \<le> length offset \<and> pt = plus_offset fp offset points)
      (filter ?code po) cloud"
    by simp
  then have "list_all2
      (\<lambda>param pt. \<exists>points. get_vec (snd param) = Inr points \<and> 3 \<le> length points
         \<and> 3 \<le> length offset \<and> pt = plus_offset fp offset points)
      (filter ?spec po) cloud"
    by (simp only: same)
  then have "list_all2 (\<lambda>param pt. point_plus_offset fp p (snd param) pt) (filter ?spec po) cloud"
  proof (rule list.rel_mono_strong)
    fix param pt
    assume in_po: "param \<in> set (filter ?spec po)"
      and "\<exists>points. get_vec (snd param) = Inr points \<and> 3 \<le> length points
         \<and> 3 \<le> length offset \<and> pt = plus_offset fp offset points"
    then obtain points where
      pts: "get_vec (snd param) = Inr points" "3 \<le> length points" "3 \<le> length offset"
        "pt = plus_offset fp offset points"
      by blast
    from in_po fits have fpar: "fits_int (snd param)" by simp
    have "array_values (snd param) = Some points"
      by (rule get_vec_array_values [OF fpar pts(1)])
    with ov pts show "point_plus_offset fp p (snd param) pt"
      by (auto simp: point_plus_offset_def)
  qed
  then have "list_all2 (point_plus_offset fp p) (declared_points po name) cloud"
    by (simp add: declared_points_def list_all2_map1)
  with m have t: "template_of fp po name cloud"
    by (auto simp: template_of_def)
  from Cons.IH [OF rest] obtain new where
    "mcs' = (mcs @ [cloud]) @ new" "list_all2 (template_of fp po) names new"
    by blast
  with t show ?case
    by (intro exI [of _ "cloud # new"]) simp
qed

text \<open>
  Where every integer element fits the 32-bit \<^verbatim>\<open>int\<close> and every key that begins with
  \<^verbatim>\<open>marker_configurations.<name>.points\<close> goes on with a dot, a configuration that is built
  has the templates of the specification: each stored point is the declared point plus the
  offset.
\<close>

lemma templates_are_declared_plus_offset:
  assumes "build_configuration fp po = Inr cfg"
    and "\<forall>param \<in> set po. fits_int (snd param)"
    and "\<forall>param \<in> set po. \<forall>name.
        prefix (''marker_configurations.'' @ name @ ''.points'') (fst param) \<longrightarrow>
        prefix (''marker_configurations.'' @ name @ ''.points.'') (fst param)"
  shows "\<exists>marker_config_names.
           extract_names po ''marker_configurations'' = Inr marker_config_names
         \<and> list_all2 (template_of fp po) marker_config_names (markerConfigurations cfg)"
proof -
  from build_configuration_Inr [OF assms(1)] obtain i mnames mcs midx where
    "extract_names po ''marker_configurations'' = Inr mnames"
    "marker_loop fp po mnames i ([], Map.empty) = Inr (mcs, midx)"
    "markerConfigurations cfg = mcs"
    by auto
  then show ?thesis
    using marker_loop_templates [OF assms(2,3), of fp mnames i "[]" Map.empty mcs midx]
    by auto
qed

text \<open>
  The specification's example: the offset \<open>[0, 0, 1]\<close> and the point \<open>[1, 0, 0]\<close> give the
  stored point \<open>(1, 0, 1)\<close> when the operations are exact on these values.
\<close>

lemma marker_example_any_ops:
  "build_configuration fp marker_example =
     Inr \<lparr>dynamicsConfigurations = [],
          markerConfigurations =
            [[\<lparr>px = d2f fp (dadd fp 1 0), py = d2f fp (dadd fp 0 0), pz = d2f fp (dadd fp 0 1)\<rparr>]],
          objects = []\<rparr>"
  by (simp add: build_configuration_def marker_example_def eval_defs)

lemma marker_example_exact:
  "build_configuration exact_ops marker_example =
     Inr \<lparr>dynamicsConfigurations = [],
          markerConfigurations = [[\<lparr>px = 1, py = 0, pz = 1\<rparr>]],
          objects = []\<rparr>
   \<and> template_of exact_ops marker_example ''m'' [\<lparr>px = 1, py = 0, pz = 1\<rparr>]"
  by (simp add: marker_example_any_ops)
     (simp add: exact_ops_def marker_example_def template_of_def declared_points_def
        point_plus_offset_def array_values_def plus_offset_def)

text \<open>
  A key that begins with \<^verbatim>\<open>marker_configurations.m.points\<close> and is no
  \<^verbatim>\<open>points.<idx>\<close> sub-key is stored as a point all the same: the template has two
  points, where one is declared.
\<close>

lemma points_per_body_is_stored:
  "build_configuration exact_ops points_per_body_overrides =
     Inr \<lparr>dynamicsConfigurations = [],
          markerConfigurations = [[\<lparr>px = 1, py = 0, pz = 1\<rparr>, \<lparr>px = 9, py = 9, pz = 10\<rparr>]],
          objects = []\<rparr>
   \<and> declared_points points_per_body_overrides ''m'' = [Double_array [1, 0, 0]]"
  by (simp add: build_configuration_def points_per_body_overrides_def eval_defs exact_ops_def
      declared_points_def)

text \<open>
  C8. The claim: every stored template point is the declared point plus the offset of the
  configuration, component by component. The declared point \<open>[2147483648, 0, 0]\<close>, given
  as integers, with the offset \<open>[0, 0, 1]\<close> is \<open>(2147483648, 0, 1)\<close> after the sum, which
  the operations of \<open>exact_ops\<close> leave as it is; the code reads the point through
  \<^verbatim>\<open>get_vec\<close>, whose 32-bit loop variable turns the first component into
  \<open>- 2147483648\<close>, and stores \<open>(- 2147483648, 0, 1)\<close>, which is not the template of the
  specification.
\<close>

theorem integer_point_is_narrowed_before_the_offset:
  "build_configuration exact_ops large_point_overrides =
     Inr \<lparr>dynamicsConfigurations = [],
          markerConfigurations = [[\<lparr>px = - 2147483648, py = 0, pz = 1\<rparr>]],
          objects = []\<rparr>
   \<and> map array_values (declared_points large_point_overrides ''m'') = [Some [2147483648, 0, 0]]
   \<and> template_of exact_ops large_point_overrides ''m'' [\<lparr>px = 2147483648, py = 0, pz = 1\<rparr>]
   \<and> \<not> template_of exact_ops large_point_overrides ''m'' [\<lparr>px = - 2147483648, py = 0, pz = 1\<rparr>]"
  by (simp add: build_configuration_def large_point_overrides_def eval_defs exact_ops_def
      template_of_def declared_points_def point_plus_offset_def array_values_def plus_offset_def)

subsection \<open>Name references\<close>

lemma dynamics_loop_counter:
  "dynamics_loop po names (cfgs, idx, i) = Inr (cfgs', idx', i') \<Longrightarrow>
     i' = i + length names \<and> length cfgs' = length cfgs"
proof (induction names arbitrary: cfgs idx i)
  case Nil
  then show ?case by simp
next
  case (Cons name names)
  from Cons.prems obtain c where
    "dynamics_loop po names (cfgs[i := c], idx(name \<mapsto> i), i + 1) = Inr (cfgs', idx', i')"
    by (auto simp: bind_eq_Inr)
  from Cons.IH [OF this] show ?case by simp
qed

text \<open>A dynamics name is mapped to its position among the names, counted from \<open>i\<close>.\<close>

lemma dynamics_loop_index:
  "dynamics_loop po names (cfgs, idx, i) = Inr (cfgs', idx', i') \<Longrightarrow> idx' n = Some j \<Longrightarrow>
     idx n = Some j \<or> (i \<le> j \<and> j - i < length names \<and> names ! (j - i) = n)"
proof (induction names arbitrary: cfgs idx i)
  case Nil
  then show ?case by simp
next
  case (Cons name names)
  from Cons.prems(1) obtain c where
    "dynamics_loop po names (cfgs[i := c], idx(name \<mapsto> i), i + 1) = Inr (cfgs', idx', i')"
    by (auto simp: bind_eq_Inr)
  from Cons.IH [OF this Cons.prems(2)]
  consider "(idx(name \<mapsto> i)) n = Some j"
    | "i + 1 \<le> j" "j - (i + 1) < length names" "names ! (j - (i + 1)) = n"
    by blast
  then show ?case
  proof cases
    case 1
    then show ?thesis by (auto split: if_splits)
  next
    case 2
    then have "(name # names) ! (j - i) = n"
      by (simp add: nth_Cons split: nat.splits) (metis Suc_diff_Suc Suc_le_lessD diff_Suc_1)
    with 2 show ?thesis by auto
  qed
qed

text \<open>A marker name is mapped to the value of \<open>i\<close>, whatever its position.\<close>

lemma marker_loop_index:
  "marker_loop fp po names i (mcs, idx) = Inr (mcs', idx') \<Longrightarrow> idx' n = Some j \<Longrightarrow>
     idx n = Some j \<or> j = i"
proof (induction names arbitrary: mcs idx)
  case Nil
  then show ?case by simp
next
  case (Cons name names)
  from Cons.prems(1) obtain cloud where
    "marker_loop fp po names i (mcs @ [cloud], idx(name \<mapsto> i)) = Inr (mcs', idx')"
    by (auto simp: bind_eq_Inr)
  from Cons.IH [OF this Cons.prems(2)] show ?case
    by (auto split: if_splits)
qed

lemma objects_loop_indices:
  "objects_loop fp po names midx didx objs = Inr objs' \<Longrightarrow> ob \<in> set objs' \<Longrightarrow>
     ob \<in> set objs \<or>
     (\<exists>marker dynamics.
        at_key po (''rigid_bodies.'' @ object_name ob @ ''.marker'') = Inr (String marker)
      \<and> at_key po (''rigid_bodies.'' @ object_name ob @ ''.dynamics'') = Inr (String dynamics)
      \<and> midx marker = Some (markerConfigurationIdx ob)
      \<and> didx dynamics = Some (dynamicsConfigurationIdx ob))"
proof (induction names arbitrary: objs)
  case Nil
  then show ?case by simp
next
  case (Cons name names)
  from Cons.prems(1) obtain mi di tr p2 p3 marker dynamics where
    m: "at_key po (''rigid_bodies.'' @ name @ ''.marker'') = Inr p2" "get_string p2 = Inr marker"
      "midx marker = Some mi"
    and d: "at_key po (''rigid_bodies.'' @ name @ ''.dynamics'') = Inr p3"
      "get_string p3 = Inr dynamics" "didx dynamics = Some di"
    and rest: "objects_loop fp po names midx didx
        (objs @ [\<lparr>markerConfigurationIdx = mi, dynamicsConfigurationIdx = di,
                   initialTransformation = tr, object_name = name\<rparr>]) = Inr objs'"
    by (auto simp: bind_eq_Inr index_at_eq_Inr)
  from m(2) d(2) have "p2 = String marker" "p3 = String dynamics"
    by (auto simp: get_string_def split: parameter_value.splits)
  with Cons.IH [OF rest Cons.prems(2)] m d show ?case
    by auto
qed

text \<open>
  The dynamics reference of every rigid body is resolved to the position of the named
  profile among the dynamics names, which is its index in the collection.
\<close>

lemma dynamics_reference_resolves:
  assumes "build_configuration fp po = Inr cfg" and "ob \<in> set (objects cfg)"
  shows "\<exists>dnames dynamics.
           extract_names po ''dynamics_configurations'' = Inr dnames
         \<and> length (dynamicsConfigurations cfg) = length dnames
         \<and> at_key po (''rigid_bodies.'' @ object_name ob @ ''.dynamics'') = Inr (String dynamics)
         \<and> dynamicsConfigurationIdx ob < length dnames
         \<and> dnames ! dynamicsConfigurationIdx ob = dynamics"
proof -
  from build_configuration_Inr [OF assms(1)]
  obtain dnames dcs didx i mnames mcs midx rnames objs where
    e: "extract_names po ''dynamics_configurations'' = Inr dnames"
    and d: "dynamics_loop po dnames (replicate (length dnames) zero_dynamics, Map.empty, 0) =
              Inr (dcs, didx, i)"
    and ol: "objects_loop fp po rnames midx didx [] = Inr objs"
    and cfg: "cfg = \<lparr>dynamicsConfigurations = dcs, markerConfigurations = mcs, objects = objs\<rparr>"
    by blast
  from dynamics_loop_counter [OF d] have len: "length dcs = length dnames" by simp
  from objects_loop_indices [OF ol, of ob] assms(2) cfg obtain dynamics where
    a: "at_key po (''rigid_bodies.'' @ object_name ob @ ''.dynamics'') = Inr (String dynamics)"
    and r: "didx dynamics = Some (dynamicsConfigurationIdx ob)"
    by auto
  from dynamics_loop_index [OF d r]
  have "dynamicsConfigurationIdx ob < length dnames \<and> dnames ! dynamicsConfigurationIdx ob = dynamics"
    by simp
  with e len a cfg show ?thesis by simp
qed

text \<open>
  The marker reference of every rigid body is resolved to the number of dynamics profiles:
  the marker loop stores the counter that the dynamics loop has left and does not count.
\<close>

lemma marker_reference_is_dynamics_count:
  assumes "build_configuration fp po = Inr cfg" and "ob \<in> set (objects cfg)"
  shows "markerConfigurationIdx ob = length (dynamicsConfigurations cfg)"
proof -
  from build_configuration_Inr [OF assms(1)]
  obtain dnames dcs didx i mnames mcs midx rnames objs where
    d: "dynamics_loop po dnames (replicate (length dnames) zero_dynamics, Map.empty, 0) =
          Inr (dcs, didx, i)"
    and m: "marker_loop fp po mnames i ([], Map.empty) = Inr (mcs, midx)"
    and ol: "objects_loop fp po rnames midx didx [] = Inr objs"
    and cfg: "cfg = \<lparr>dynamicsConfigurations = dcs, markerConfigurations = mcs, objects = objs\<rparr>"
    by blast
  from dynamics_loop_counter [OF d] have i: "i = length dcs" by simp
  from objects_loop_indices [OF ol, of ob] assms(2) cfg obtain marker where
    "midx marker = Some (markerConfigurationIdx ob)" by auto
  from marker_loop_index [OF m this] have "markerConfigurationIdx ob = i" by simp
  with i cfg show ?thesis by simp
qed

lemma example_names:
  "extract_names example_overrides ''dynamics_configurations'' = Inr [''fast'', ''slow'']"
  "extract_names example_overrides ''marker_configurations'' = Inr [''m'']"
  "extract_names example_overrides ''rigid_bodies'' = Inr [''cf1'']"
  by (simp_all add: example_overrides_def eval_defs)

text \<open>
  C1. The claim: the marker and the dynamics reference of every rigid body resolve to the
  index of the entry of that name. With the dynamics profiles \<^verbatim>\<open>fast\<close> and \<^verbatim>\<open>slow\<close>,
  the marker configuration \<^verbatim>\<open>m\<close> and the rigid body \<^verbatim>\<open>cf1\<close> that refers to \<^verbatim>\<open>m\<close> and
  \<^verbatim>\<open>fast\<close>, the dynamics index of \<^verbatim>\<open>cf1\<close> is 0, the index of \<^verbatim>\<open>fast\<close>, but its
  marker index is 2, while \<^verbatim>\<open>m\<close> is the entry 0 of a collection of one template.
\<close>

theorem marker_reference_of_example:
  "build_configuration exact_ops example_overrides =
     Inr \<lparr>dynamicsConfigurations =
            [\<lparr>maxXVelocity = 4, maxYVelocity = 4, maxZVelocity = 6,
              maxRollRate = 20, maxPitchRate = 20, maxYawRate = 10,
              maxRoll = 1.4, maxPitch = 1.4, maxFitnessScore = 0.001\<rparr>,
             \<lparr>maxXVelocity = 2, maxYVelocity = 2, maxZVelocity = 3,
              maxRollRate = 10, maxPitchRate = 10, maxYawRate = 5,
              maxRoll = 1, maxPitch = 1, maxFitnessScore = 0.001\<rparr>],
          markerConfigurations = [[\<lparr>px = 1, py = 0, pz = 1\<rparr>]],
          objects =
            [\<lparr>markerConfigurationIdx = 2, dynamicsConfigurationIdx = 0,
              initialTransformation = \<lparr>px = 0, py = 0, pz = 0\<rparr>,
              object_name = ''cf1''\<rparr>]\<rparr>"
  by (simp add: build_configuration_def example_names)
     (simp add: example_overrides_def eval_defs zero_dynamics_def exact_ops_def)

subsection \<open>Failures\<close>

lemma run_node_aborts:
  "build_configuration fp po = Inl e \<Longrightarrow> run_node fp env po frames = Inl e"
  by (simp add: run_node_def)

lemma at_key_missing: "map_of m k = None \<Longrightarrow> at_key m k = Inl Out_of_range"
  by (simp add: at_key_def)

lemma index_at_unresolved: "m k = None \<Longrightarrow> index_at m k = Inl Out_of_range"
  by (simp add: index_at_def)

lemma vec_at_short: "length v \<le> k \<Longrightarrow> vec_at v k = Inl Out_of_range"
  by (simp add: vec_at_def)

lemma vec_index_short: "length v \<le> k \<Longrightarrow> vec_index v k = Inl Undefined_behaviour"
  by (simp add: vec_index_def)

text \<open>The reads of a dynamics profile are checked: they throw or they succeed.\<close>

lemma bind_throws:
  "r \<noteq> Inl Undefined_behaviour \<Longrightarrow> (\<And>x. f x \<noteq> Inl Undefined_behaviour) \<Longrightarrow>
     bind r f \<noteq> Inl Undefined_behaviour"
  by (cases r) simp_all

lemma reads_throw:
  "at_key m k \<noteq> Inl Undefined_behaviour"
  "get_vec p \<noteq> Inl Undefined_behaviour"
  "get_double p \<noteq> Inl Undefined_behaviour"
  "vec_at v n \<noteq> Inl Undefined_behaviour"
  by (simp_all add: at_key_def get_vec_def get_double_def get_double_array_def vec_at_def
      split: option.splits parameter_value.splits)

lemma read_dynamics_throws: "read_dynamics po name \<noteq> Inl Undefined_behaviour"
  unfolding read_dynamics_def by (intro bind_throws reads_throw) simp

lemma dynamics_loop_throws: "dynamics_loop po names st \<noteq> Inl Undefined_behaviour"
proof (induction names arbitrary: st)
  case Nil
  show ?case by simp
next
  case (Cons name names)
  obtain cfgs idx i where st: "st = (cfgs, idx, i)" by (cases st)
  show ?case
    unfolding st dynamics_loop.simps by (intro bind_throws read_dynamics_throws Cons)
qed

lemma extract_names_throws: "extract_names po pattern \<noteq> Inl Undefined_behaviour"
  by (simp add: extract_names_tokens)

text \<open>
  A missing key and an unresolved reference end the configuration building with
  \<^verbatim>\<open>std::out_of_range\<close>, and so does a maximal velocity of two elements, which is read
  with \<^verbatim>\<open>at\<close>.
\<close>

lemma missing_key_aborts:
  "build_configuration exact_ops
     (filter (\<lambda>param. fst param \<noteq> ''dynamics_configurations.fast.max_roll'') example_overrides) =
   Inl Out_of_range"
  by (simp add: example_overrides_def build_configuration_def eval_defs)

lemma unresolved_reference_aborts:
  "build_configuration exact_ops
     (map (\<lambda>param. if fst param = ''rigid_bodies.cf1.marker'' then (fst param, String ''none'')
                    else param) example_overrides) =
   Inl Out_of_range"
  by (simp add: example_overrides_def build_configuration_def eval_defs zero_dynamics_def
      exact_ops_def)

lemma short_velocity_aborts:
  "build_configuration fp short_velocity_overrides = Inl Out_of_range"
  by (simp add: short_velocity_overrides_def build_configuration_def eval_defs)

text \<open>
  C7. The claim: every startup configuration error, a numeric array of fewer than three
  elements among them, aborts the process while the configuration is built. An initial
  position of two elements is read with \<^verbatim>\<open>pos[2]\<close>, past its end: no exception is thrown,
  the behaviour is undefined, and nothing makes the process abort.
\<close>

theorem short_initial_position_does_not_abort:
  "build_configuration fp short_position_overrides = Inl Undefined_behaviour
   \<and> \<not> is_exception Undefined_behaviour"
  by (simp add: short_position_overrides_def build_configuration_def eval_defs zero_dynamics_def
      is_exception_def)

end
